theory Spec2Isabelle
  imports Complex_Main
begin

section \<open>PCA9685 register map (main.ts, lines 14-29)\<close>

text \<open>
  The TypeScript constants are non-negative integer \<open>number\<close>s; they are modelled as
  \<open>nat\<close>. Where the program stores a number into a byte (a buffer cell, an
  \<open>UInt8LE\<close> transfer) the truncation \<open>mod 256\<close> is written out.
\<close>

definition CHIP_ADDRESS :: nat where "CHIP_ADDRESS = 0x6A"
definition REG_MODE1 :: nat where "REG_MODE1 = 0x00"
definition REG_MODE2 :: nat where "REG_MODE2 = 0x01"
definition REG_SUB_ADR1 :: nat where "REG_SUB_ADR1 = 0x02"
definition REG_SUB_ADR2 :: nat where "REG_SUB_ADR2 = 0x03"
definition REG_SUB_ADR3 :: nat where "REG_SUB_ADR3 = 0x04"
definition REG_ALL_CALL :: nat where "REG_ALL_CALL = 0x05"
definition REG_SERVO1_REG_BASE :: nat where "REG_SERVO1_REG_BASE = 0x06"

definition REG_ALL_LED_ON_L :: nat where "REG_ALL_LED_ON_L = 0xFA"
definition REG_ALL_LED_ON_H :: nat where "REG_ALL_LED_ON_H = 0xFB"
definition REG_ALL_LED_OFF_L :: nat where "REG_ALL_LED_OFF_L = 0xFC"
definition REG_ALL_LED_OFF_H :: nat where "REG_ALL_LED_OFF_H = 0xFD"
definition REG_PRE_SCALE :: nat where "REG_PRE_SCALE = 0xFE"

definition PWM_FREQUENCY :: nat where "PWM_FREQUENCY = 0x1E"

section \<open>Enumerations (main.ts, lines 42-72)\<close>

datatype Servos =
    Servo1 | Servo2 | Servo3 | Servo4 | Servo5 | Servo6 | Servo7 | Servo8
  | Servo9 | Servo10 | Servo11 | Servo12 | Servo13 | Servo14 | Servo15 | Servo16

text \<open>The numeric value of each enumerator: a register offset in the PCA9685.\<close>

fun Servos_value :: "Servos \<Rightarrow> nat" where
  "Servos_value Servo1 = 0x08"
| "Servos_value Servo2 = 0x0C"
| "Servos_value Servo3 = 0x10"
| "Servos_value Servo4 = 0x14"
| "Servos_value Servo5 = 0x18"
| "Servos_value Servo6 = 0x1C"
| "Servos_value Servo7 = 0x20"
| "Servos_value Servo8 = 0x24"
| "Servos_value Servo9 = 0x28"
| "Servos_value Servo10 = 0x2C"
| "Servos_value Servo11 = 0x30"
| "Servos_value Servo12 = 0x34"
| "Servos_value Servo13 = 0x38"
| "Servos_value Servo14 = 0x3C"
| "Servos_value Servo15 = 0x40"
| "Servos_value Servo16 = 0x44"

text \<open>The enumerators in their order of declaration.\<close>

definition Servos_all :: "Servos list" where
  "Servos_all =
     [Servo1, Servo2, Servo3, Servo4, Servo5, Servo6, Servo7, Servo8,
      Servo9, Servo10, Servo11, Servo12, Servo13, Servo14, Servo15, Servo16]"

datatype BoardAddresses = Board1

fun BoardAddresses_value :: "BoardAddresses \<Rightarrow> nat" where
  "BoardAddresses_value Board1 = 0x6A"

datatype PulseRange =
    R500_2500uS | R600_2400uS | R700_2300uS | R800_2200uS | R900_2100uS | R1000_2000uS

fun PulseRange_value :: "PulseRange \<Rightarrow> nat" where
  "PulseRange_value R500_2500uS = 1"
| "PulseRange_value R600_2400uS = 2"
| "PulseRange_value R700_2300uS = 3"
| "PulseRange_value R800_2200uS = 4"
| "PulseRange_value R900_2100uS = 5"
| "PulseRange_value R1000_2000uS = 6"

section \<open>The host runtime: I2C bus, display, delay\<close>

text \<open>
  The calls into the host (\<open>pins.i2cWriteBuffer\<close>, \<open>pins.i2cWriteNumber\<close>,
  \<open>pins.i2cReadNumber\<close>, \<open>basic.showNumber\<close>, \<open>basic.pause\<close>) are recorded, in the
  order in which they happen, in a trace. A buffer write records a snapshot of the bytes
  sent, since the program reuses one buffer for every transfer.
\<close>

datatype event =
    I2cWriteBuffer nat "nat list" bool   \<comment> \<open>address, bytes sent, repeated-start flag\<close>
  | I2cWriteNumber nat nat               \<comment> \<open>address, byte sent\<close>
  | I2cReadNumber nat nat                \<comment> \<open>address, byte received\<close>
  | ShowNumber nat
  | Pause nat

text \<open>
  The program state: the module-level flag of line 39 and the trace of host calls.
\<close>

record state =
  PCA9685_init :: bool
  trace :: "event list"

text \<open>The state when the module is loaded: line 39 sets the flag to \<open>false\<close>.\<close>

definition startup :: state where
  "startup = \<lparr>PCA9685_init = False, trace = []\<rparr>"

text \<open>
  What the chip answers to a read is not decided by the program: it is a parameter, a
  function of everything that has happened on the bus so far.
\<close>

type_synonym device = "event list \<Rightarrow> nat"

definition i2cWriteBuffer :: "nat \<Rightarrow> nat list \<Rightarrow> bool \<Rightarrow> state \<Rightarrow> state" where
  "i2cWriteBuffer addr b rep s = s\<lparr>trace := trace s @ [I2cWriteBuffer addr b rep]\<rparr>"

definition i2cWriteNumber :: "nat \<Rightarrow> nat \<Rightarrow> state \<Rightarrow> state" where
  "i2cWriteNumber addr v s = s\<lparr>trace := trace s @ [I2cWriteNumber addr (v mod 256)]\<rparr>"

definition i2cReadNumber :: "device \<Rightarrow> nat \<Rightarrow> state \<Rightarrow> nat \<times> state" where
  "i2cReadNumber dev addr s =
     (let v = dev (trace s) mod 256
      in (v, s\<lparr>trace := trace s @ [I2cReadNumber addr v]\<rparr>))"

definition showNumber :: "nat \<Rightarrow> state \<Rightarrow> state" where
  "showNumber v s = s\<lparr>trace := trace s @ [ShowNumber v]\<rparr>"

definition pause :: "nat \<Rightarrow> state \<Rightarrow> state" where
  "pause ms s = s\<lparr>trace := trace s @ [Pause ms]\<rparr>"

text \<open>
  Buffers are lists of bytes. \<open>createBuffer n\<close> is zero-filled; a store keeps the low
  eight bits. The program only stores at the indices 0 and 1 of a buffer of size 2; a
  store out of range is written here as leaving the buffer unchanged.
\<close>

definition createBuffer :: "nat \<Rightarrow> nat list" where
  "createBuffer n = replicate n 0"

definition setBuf :: "nat list \<Rightarrow> nat \<Rightarrow> nat \<Rightarrow> nat list" where
  "setBuf b i v = (if i < length b then b[i := v mod 256] else b)"

section \<open>readReg (main.ts, lines 111-114)\<close>

definition readReg :: "device \<Rightarrow> nat \<Rightarrow> nat \<Rightarrow> state \<Rightarrow> nat \<times> state" where
  "readReg dev addr reg s = i2cReadNumber dev addr (i2cWriteNumber addr reg s)"

section \<open>initialisation (main.ts, lines 128-152)\<close>

text \<open>
  The body of \<open>initialisation\<close> is a straight line of 23 statements. Each statement is a
  transformer of the function's frame: the program state together with the locals
  \<open>buf\<close> and \<open>data\<close>. Keeping the statements in a list makes the intermediate states
  available, so that what has happened before the flag is set can be stated. On entry
  the locals hold nothing yet (\<open>buf\<close> is created by the first statement, \<open>data\<close> is
  assigned by the read-back before anything reads it).
\<close>

record frame =
  glob :: state
  buf :: "nat list"
  data :: nat

definition enter :: "state \<Rightarrow> frame" where
  "enter s = \<lparr>glob = s, buf = [], data = 0\<rparr>"

definition buf_create :: "nat \<Rightarrow> frame \<Rightarrow> frame" where
  "buf_create n f = f\<lparr>buf := createBuffer n\<rparr>"

definition buf_store :: "nat \<Rightarrow> nat \<Rightarrow> frame \<Rightarrow> frame" where
  "buf_store i v f = f\<lparr>buf := setBuf (buf f) i v\<rparr>"

definition buf_write :: "nat \<Rightarrow> bool \<Rightarrow> frame \<Rightarrow> frame" where
  "buf_write addr rep f = f\<lparr>glob := i2cWriteBuffer addr (buf f) rep (glob f)\<rparr>"

definition data_readReg :: "device \<Rightarrow> nat \<Rightarrow> nat \<Rightarrow> frame \<Rightarrow> frame" where
  "data_readReg dev addr reg f =
     (case readReg dev addr reg (glob f) of (v, s) \<Rightarrow> f\<lparr>glob := s, data := v\<rparr>)"

definition data_show :: "frame \<Rightarrow> frame" where
  "data_show f = f\<lparr>glob := showNumber (data f) (glob f)\<rparr>"

definition do_pause :: "nat \<Rightarrow> frame \<Rightarrow> frame" where
  "do_pause ms f = f\<lparr>glob := pause ms (glob f)\<rparr>"

definition init_assign :: "bool \<Rightarrow> frame \<Rightarrow> frame" where
  "init_assign b f = f\<lparr>glob := (glob f)\<lparr>PCA9685_init := b\<rparr>\<rparr>"

definition initialisation_body :: "device \<Rightarrow> (frame \<Rightarrow> frame) list" where
  "initialisation_body dev =
     [buf_create 2,
      buf_store 0 REG_PRE_SCALE,
      buf_store 1 PWM_FREQUENCY,
      buf_write CHIP_ADDRESS False,
      data_readReg dev CHIP_ADDRESS REG_PRE_SCALE,
      data_show,
      buf_store 0 REG_ALL_LED_ON_L,
      buf_store 1 0x00,
      buf_write CHIP_ADDRESS False,
      buf_store 0 REG_ALL_LED_ON_H,
      buf_store 1 0x00,
      buf_write CHIP_ADDRESS False,
      buf_store 0 REG_ALL_LED_OFF_L,
      buf_store 1 0x23,
      buf_write CHIP_ADDRESS False,
      buf_store 0 REG_ALL_LED_OFF_H,
      buf_store 1 0x01,
      buf_write CHIP_ADDRESS False,
      buf_store 0 REG_MODE1,
      buf_store 1 0x01,
      buf_write CHIP_ADDRESS False,
      do_pause 10,
      init_assign True]"

text \<open>Running statements one after the other.\<close>

fun run :: "(frame \<Rightarrow> frame) list \<Rightarrow> frame \<Rightarrow> frame" where
  "run [] f = f"
| "run (st # sts) f = run sts (st f)"

definition initialisation :: "device \<Rightarrow> state \<Rightarrow> state" where
  "initialisation dev s = glob (run (initialisation_body dev) (enter s))"

section \<open>servoWrite (main.ts, lines 165-193)\<close>

text \<open>
  \<open>degrees\<close> is a JavaScript number; the body never reads it (the statements that did
  are inside a comment, lines 169-192), so it is modelled as a real number.
\<close>

definition servoWrite :: "device \<Rightarrow> Servos \<Rightarrow> real \<Rightarrow> state \<Rightarrow> state" where
  "servoWrite dev Servo degrees s =
     (if PCA9685_init s = False then initialisation dev s else s)"

section \<open>Sequences of calls\<close>

text \<open>
  A caller's sequence of \<open>servoWrite\<close> calls, each with its servo and its angle, run from
  a given state.
\<close>

fun run_calls :: "device \<Rightarrow> (Servos \<times> real) list \<Rightarrow> state \<Rightarrow> state" where
  "run_calls dev [] s = s"
| "run_calls dev ((Servo, degrees) # calls) s = run_calls dev calls (servoWrite dev Servo degrees s)"

section \<open>Reading a trace\<close>

text \<open>
  A register write is a two-byte buffer sent to the chip: the register address, then the
  value (as in lines 130-132).
\<close>

fun reg_write :: "event \<Rightarrow> (nat \<times> nat) option" where
  "reg_write (I2cWriteBuffer addr [r, v] rep) =
     (if addr = CHIP_ADDRESS then Some (r, v) else None)"
| "reg_write _ = None"

text \<open>The values written to register \<open>r\<close>, in order.\<close>

definition writes_to :: "nat \<Rightarrow> event list \<Rightarrow> nat list" where
  "writes_to r tr = map snd (filter (\<lambda>p. fst p = r) (List.map_filter reg_write tr))"

text \<open>
  The four registers of a channel. The enumerator's value is the channel's off-low
  register and the next address its off-high register (the write path in the comment of
  lines 180-191 sends the pulse count to \<open>Servo\<close> and \<open>Servo + 1\<close>); the two addresses
  before them are its on-low and on-high registers, so that the block of servo 1 starts
  at \<open>REG_SERVO1_REG_BASE\<close>.
\<close>

definition on_low :: "Servos \<Rightarrow> nat" where "on_low c = Servos_value c - 2"
definition on_high :: "Servos \<Rightarrow> nat" where "on_high c = Servos_value c - 1"
definition off_low :: "Servos \<Rightarrow> nat" where "off_low c = Servos_value c"
definition off_high :: "Servos \<Rightarrow> nat" where "off_high c = Servos_value c + 1"

definition channel_regs :: "Servos \<Rightarrow> nat list" where
  "channel_regs c = [on_low c, on_high c, off_low c, off_high c]"

definition is_channel_write :: "event \<Rightarrow> bool" where
  "is_channel_write e =
     (case reg_write e of
        Some (r, v) \<Rightarrow> r \<in> set (concat (map channel_regs Servos_all))
      | None \<Rightarrow> False)"

text \<open>The prescaler register and the four broadcast registers.\<close>

definition init_regs :: "nat list" where
  "init_regs =
     [REG_PRE_SCALE, REG_ALL_LED_ON_L, REG_ALL_LED_ON_H, REG_ALL_LED_OFF_L, REG_ALL_LED_OFF_H]"

text \<open>
  Every write to a channel's register comes after a write to each of the registers of
  \<open>init_regs\<close>.
\<close>

definition init_first :: "event list \<Rightarrow> bool" where
  "init_first tr =
     (\<forall>i < length tr. is_channel_write (tr ! i) \<longrightarrow>
        (\<forall>r \<in> set init_regs. writes_to r (take i tr) \<noteq> []))"

text \<open>
  The host calls of one run of \<open>initialisation\<close>, \<open>d\<close> being the byte that the chip
  answers to the read of the prescaler register.
\<close>

definition init_events :: "nat \<Rightarrow> event list" where
  "init_events d =
     [I2cWriteBuffer CHIP_ADDRESS [REG_PRE_SCALE, PWM_FREQUENCY] False,
      I2cWriteNumber CHIP_ADDRESS REG_PRE_SCALE,
      I2cReadNumber CHIP_ADDRESS d,
      ShowNumber d,
      I2cWriteBuffer CHIP_ADDRESS [REG_ALL_LED_ON_L, 0x00] False,
      I2cWriteBuffer CHIP_ADDRESS [REG_ALL_LED_ON_H, 0x00] False,
      I2cWriteBuffer CHIP_ADDRESS [REG_ALL_LED_OFF_L, 0x23] False,
      I2cWriteBuffer CHIP_ADDRESS [REG_ALL_LED_OFF_H, 0x01] False,
      I2cWriteBuffer CHIP_ADDRESS [REG_MODE1, 0x01] False,
      Pause 10]"

definition prescale_answer :: "device \<Rightarrow> state \<Rightarrow> nat" where
  "prescale_answer dev s =
     dev (trace s @
          [I2cWriteBuffer CHIP_ADDRESS [REG_PRE_SCALE, PWM_FREQUENCY] False,
           I2cWriteNumber CHIP_ADDRESS REG_PRE_SCALE]) mod 256"

section \<open>The angle encoder of the specification\<close>

text \<open>
  Modelled from the spec: the pulse profiles with their bounds in microseconds. main.ts
  declares \<open>PulseRange\<close> as a bare enumeration with the values 1 to 6 and never uses it;
  the bounds are those the specification lists for the six ranges (sections 3 and 6).
\<close>

record PulseProfile =
  minPulseUs :: real
  maxPulseUs :: real

text \<open>Modelled from the spec: the bounds of the six named ranges (section 6).\<close>

fun profile_of :: "PulseRange \<Rightarrow> PulseProfile" where
  "profile_of R500_2500uS = \<lparr>minPulseUs = 500, maxPulseUs = 2500\<rparr>"
| "profile_of R600_2400uS = \<lparr>minPulseUs = 600, maxPulseUs = 2400\<rparr>"
| "profile_of R700_2300uS = \<lparr>minPulseUs = 700, maxPulseUs = 2300\<rparr>"
| "profile_of R800_2200uS = \<lparr>minPulseUs = 800, maxPulseUs = 2200\<rparr>"
| "profile_of R900_2100uS = \<lparr>minPulseUs = 900, maxPulseUs = 2100\<rparr>"
| "profile_of R1000_2000uS = \<lparr>minPulseUs = 1000, maxPulseUs = 2000\<rparr>"

text \<open>
  Modelled from the spec: the invariant of a profile (section 3), \<open>minPulseUs < maxPulseUs\<close>
  and both within 500 to 2500 microseconds. main.ts has no such check.
\<close>

definition valid_profile :: "PulseProfile \<Rightarrow> bool" where
  "valid_profile p = (500 \<le> minPulseUs p \<and> minPulseUs p < maxPulseUs p \<and> maxPulseUs p \<le> 2500)"

text \<open>Modelled from the spec: \<open>countsPerUs = 4096 / 20000\<close> (section 4.4).\<close>

definition countsPerUs :: real where
  "countsPerUs = 4096 / 20000"

text \<open>Modelled from the spec: the clamp of the angle to 0 .. 180 (section 4.4).\<close>

definition clamp_angle :: "real \<Rightarrow> real" where
  "clamp_angle a = (if a < 0 then 0 else if 180 < a then 180 else a)"

text \<open>
  Modelled from the spec: \<open>encode\<close> (section 4.4), which main.ts does not define: clamp,
  interpolate linearly between the bounds of the profile, convert to counts and round
  down. The arithmetic is that of the real numbers, as the specification writes it;
  the rounding of JavaScript's floating-point numbers is not modelled.
\<close>

definition encode :: "real \<Rightarrow> PulseProfile \<Rightarrow> int" where
  "encode angleDegrees profile =
     (let a = clamp_angle angleDegrees;
          pulseUs = minPulseUs profile + (a / 180) * (maxPulseUs profile - minPulseUs profile)
      in \<lfloor>pulseUs * countsPerUs\<rfloor>)"

text \<open>
  Modelled from the spec: the interpolated pulse width inside \<open>encode\<close> (section 4.4),
  named so that its bounds can be stated.
\<close>

definition pulse :: "real \<Rightarrow> PulseProfile \<Rightarrow> real" where
  "pulse a p = minPulseUs p + (clamp_angle a / 180) * (maxPulseUs p - minPulseUs p)"

section \<open>Clamping, as the specification describes it\<close>



section \<open>The initialisation sequence\<close>

lemmas reg_defs =
  CHIP_ADDRESS_def REG_MODE1_def REG_ALL_LED_ON_L_def REG_ALL_LED_ON_H_def
  REG_ALL_LED_OFF_L_def REG_ALL_LED_OFF_H_def REG_PRE_SCALE_def PWM_FREQUENCY_def

lemmas step_defs =
  buf_create_def buf_store_def buf_write_def data_readReg_def data_show_def
  do_pause_def init_assign_def setBuf_def i2cWriteBuffer_def
  i2cWriteNumber_def i2cReadNumber_def showNumber_def pause_def readReg_def

lemma createBuffer_2: "createBuffer 2 = [0, 0]"
  by (simp add: createBuffer_def numeral_2_eq_2)

lemma run_body:
  "run (initialisation_body dev) (enter s) =
     \<lparr>glob = \<lparr>PCA9685_init = True, trace = trace s @ init_events (prescale_answer dev s)\<rparr>,
      buf = [0x00, 0x01], data = prescale_answer dev s\<rparr>"
  by (simp add: initialisation_body_def enter_def step_defs reg_defs init_events_def
      prescale_answer_def Let_def createBuffer_2)

lemma run_body_before_flag:
  "run (take 22 (initialisation_body dev)) (enter s) =
     \<lparr>glob = \<lparr>PCA9685_init = PCA9685_init s,
              trace = trace s @ init_events (prescale_answer dev s)\<rparr>,
      buf = [0x00, 0x01], data = prescale_answer dev s\<rparr>"
  by (simp add: initialisation_body_def enter_def step_defs reg_defs init_events_def
      prescale_answer_def Let_def createBuffer_2)

lemma initialisation_eq:
  "initialisation dev s =
     \<lparr>PCA9685_init = True, trace = trace s @ init_events (prescale_answer dev s)\<rparr>"
  by (simp add: initialisation_def run_body)

lemma run_keeps_flag:
  assumes "\<And>st f. st \<in> set sts \<Longrightarrow> PCA9685_init (glob (st f)) = PCA9685_init (glob f)"
  shows "PCA9685_init (glob (run sts f)) = PCA9685_init (glob f)"
  using assms by (induction sts arbitrary: f) simp_all

lemma body_length: "length (initialisation_body dev) = 23"
  by (simp add: initialisation_body_def)

lemma body_step_keeps_flag:
  assumes "st \<in> set (butlast (initialisation_body dev))"
  shows "PCA9685_init (glob (st f)) = PCA9685_init (glob f)"
  using assms
  by (auto simp add: initialisation_body_def step_defs Let_def)

lemma prefix_keeps_flag:
  assumes "k < length (initialisation_body dev)"
  shows "PCA9685_init (glob (run (take k (initialisation_body dev)) (enter s))) = PCA9685_init s"
proof -
  have "take k (initialisation_body dev) = take k (butlast (initialisation_body dev))"
    using assms by (simp add: take_butlast)
  then have "set (take k (initialisation_body dev)) \<subseteq> set (butlast (initialisation_body dev))"
    by (metis set_take_subset)
  then have "PCA9685_init (glob (run (take k (initialisation_body dev)) (enter s)))
     = PCA9685_init (glob (enter s))"
    by (intro run_keeps_flag body_step_keeps_flag) auto
  then show ?thesis by (simp add: enter_def)
qed

lemma reg_writes_init_events:
  "List.map_filter reg_write (init_events d) =
     [(0xFE, 0x1E), (0xFA, 0x00), (0xFB, 0x00), (0xFC, 0x23), (0xFD, 0x01), (0x00, 0x01)]"
  by (simp add: init_events_def List.map_filter_simps reg_defs)

text \<open>
  Claim C4. \<open>initialisation\<close> calls the host in this order: the write of the prescaler
  register, the read-back of the prescaler register and its display, the writes of zero
  to the broadcast on-low and on-high registers, the writes to the broadcast off-low and
  off-high registers, the write of the mode register, the pause of 10 ms. The flag
  \<open>PCA9685_init\<close> keeps its value through every proper prefix of the body, all the host
  calls have been made when only the last statement is left, and the flag is true at
  the end.
\<close>

theorem initialisation_order:
  "trace (initialisation dev s) =
     trace s @
     [I2cWriteBuffer CHIP_ADDRESS [REG_PRE_SCALE, PWM_FREQUENCY] False,
      I2cWriteNumber CHIP_ADDRESS REG_PRE_SCALE,
      I2cReadNumber CHIP_ADDRESS (prescale_answer dev s),
      ShowNumber (prescale_answer dev s),
      I2cWriteBuffer CHIP_ADDRESS [REG_ALL_LED_ON_L, 0] False,
      I2cWriteBuffer CHIP_ADDRESS [REG_ALL_LED_ON_H, 0] False,
      I2cWriteBuffer CHIP_ADDRESS [REG_ALL_LED_OFF_L, 0x23] False,
      I2cWriteBuffer CHIP_ADDRESS [REG_ALL_LED_OFF_H, 0x01] False,
      I2cWriteBuffer CHIP_ADDRESS [REG_MODE1, 0x01] False,
      Pause 10] \<and>
   PCA9685_init (initialisation dev s) \<and>
   (\<forall>k < length (initialisation_body dev).
      PCA9685_init (glob (run (take k (initialisation_body dev)) (enter s))) = PCA9685_init s) \<and>
   trace (glob (run (take 22 (initialisation_body dev)) (enter s))) = trace (initialisation dev s)"
proof -
  have a: "trace (initialisation dev s) = trace s @ init_events (prescale_answer dev s)"
    by (simp add: initialisation_eq)
  have b: "PCA9685_init (initialisation dev s)"
    by (simp add: initialisation_eq)
  have c: "\<forall>k < length (initialisation_body dev).
      PCA9685_init (glob (run (take k (initialisation_body dev)) (enter s))) = PCA9685_init s"
    using prefix_keeps_flag by blast
  have d: "trace (glob (run (take 22 (initialisation_body dev)) (enter s)))
      = trace (initialisation dev s)"
    by (simp add: run_body_before_flag initialisation_eq)
  from a b c d show ?thesis unfolding init_events_def by simp
qed

theorem initialisation_order_witness:
  "(22::nat) < length (initialisation_body (\<lambda>tr. 30)) \<and>
   \<not> PCA9685_init (glob (run (take 22 (initialisation_body (\<lambda>tr. 30))) (enter startup))) \<and>
   PCA9685_init (initialisation (\<lambda>tr. 30) startup) \<and>
   trace (initialisation (\<lambda>tr. 30) startup) =
     [I2cWriteBuffer 0x6A [0xFE, 0x1E] False,
      I2cWriteNumber 0x6A 0xFE,
      I2cReadNumber 0x6A 30,
      ShowNumber 30,
      I2cWriteBuffer 0x6A [0xFA, 0] False,
      I2cWriteBuffer 0x6A [0xFB, 0] False,
      I2cWriteBuffer 0x6A [0xFC, 0x23] False,
      I2cWriteBuffer 0x6A [0xFD, 0x01] False,
      I2cWriteBuffer 0x6A [0x00, 0x01] False,
      Pause 10]"
  using initialisation_order [of "\<lambda>tr. 30" startup]
  by (simp add: body_length startup_def prescale_answer_def reg_defs)

text \<open>
  Claim C2. What \<open>initialisation\<close> writes to the broadcast off registers: 0x23 to the
  off-low register and 0x01 to the off-high register, that is the count 0x123 = 291. The
  value 0x33 of the count 307 = 0x133, which the comments of lines 121, 142 and 145 name,
  is never written.
\<close>

theorem initialisation_all_led_off_value:
  "writes_to REG_ALL_LED_OFF_L (trace (initialisation dev startup)) = [0x23] \<and>
   writes_to REG_ALL_LED_OFF_H (trace (initialisation dev startup)) = [0x01] \<and>
   0x33 \<notin> set (writes_to REG_ALL_LED_OFF_L (trace (initialisation dev startup)))"
  by (simp add: initialisation_eq startup_def writes_to_def reg_writes_init_events reg_defs)

section \<open>servoWrite and sequences of calls\<close>

lemma servoWrite_startup:
  "servoWrite dev c d startup =
     \<lparr>PCA9685_init = True, trace = init_events (prescale_answer dev startup)\<rparr>"
  by (simp add: servoWrite_def initialisation_eq startup_def)

lemma servoWrite_ready: "PCA9685_init s \<Longrightarrow> servoWrite dev c d s = s"
  by (simp add: servoWrite_def)

lemma servoWrite_sets_flag: "PCA9685_init (servoWrite dev c d s)"
  by (simp add: servoWrite_def initialisation_eq)

lemma run_calls_ready: "PCA9685_init s \<Longrightarrow> run_calls dev calls s = s"
  by (induction calls arbitrary: s) (auto simp add: servoWrite_ready)

lemma run_calls_nonempty:
  "calls \<noteq> [] \<Longrightarrow> run_calls dev calls s = servoWrite dev (fst (hd calls)) (snd (hd calls)) s"
  by (cases calls) (auto simp add: run_calls_ready servoWrite_sets_flag)

text \<open>
  Claim C5. When the flag \<open>PCA9685_init\<close> is true, \<open>servoWrite\<close> returns the state it was
  given, for every servo and every angle: no host call is added to the trace, nothing
  changes, and the result does not depend on the servo or the angle.
\<close>

theorem servoWrite_ready_noop:
  assumes "PCA9685_init s"
  shows "servoWrite dev c d s = s \<and> trace (servoWrite dev c d s) = trace s \<and>
     servoWrite dev c' d' s = servoWrite dev c d s"
  using assms by (simp add: servoWrite_def)

theorem servoWrite_ready_noop_witness:
  "PCA9685_init \<lparr>PCA9685_init = True, trace = [Pause 10]\<rparr> \<and>
   (servoWrite (\<lambda>tr. 30) Servo3 45 \<lparr>PCA9685_init = True, trace = [Pause 10]\<rparr>
      = \<lparr>PCA9685_init = True, trace = [Pause 10]\<rparr> \<and>
    trace (servoWrite (\<lambda>tr. 30) Servo3 45 \<lparr>PCA9685_init = True, trace = [Pause 10]\<rparr>)
      = trace \<lparr>PCA9685_init = True, trace = [Pause 10]\<rparr> \<and>
    servoWrite (\<lambda>tr. 30) Servo16 180 \<lparr>PCA9685_init = True, trace = [Pause 10]\<rparr>
      = servoWrite (\<lambda>tr. 30) Servo3 45 \<lparr>PCA9685_init = True, trace = [Pause 10]\<rparr>)"
proof -
  have h: "PCA9685_init \<lparr>PCA9685_init = True, trace = [Pause 10]\<rparr>" by simp
  show ?thesis by (rule conjI [OF h servoWrite_ready_noop [OF h]])
qed



section \<open>The channel registers\<close>

lemma Servos_value_ge: "8 \<le> Servos_value c"
  by (cases c) simp_all

lemma Servos_value_le: "Servos_value c \<le> 0x44"
  by (cases c) simp_all

lemma Servos_value_mod: "Servos_value c mod 4 = 0"
  by (cases c) simp_all

lemma Servos_value_inj: "Servos_value c = Servos_value c' \<Longrightarrow> c = c'"
  by (cases c; cases c'; simp)

lemma Servos_all_UNIV: "set Servos_all = UNIV"
proof -
  have "c \<in> set Servos_all" for c
    by (cases c) (simp_all add: Servos_all_def)
  then show ?thesis by auto
qed

lemma channel_regs_disjoint:
  assumes "c \<noteq> c'"
  shows "set (channel_regs c) \<inter> set (channel_regs c') = {}"
proof -
  have ne: "Servos_value c \<noteq> Servos_value c'"
    using assms Servos_value_inj by blast
  obtain k where k: "Servos_value c = 4 * k"
    using Servos_value_mod [of c] by (auto elim: dvdE simp add: mod_eq_0_iff_dvd)
  obtain k' where k': "Servos_value c' = 4 * k'"
    using Servos_value_mod [of c'] by (auto elim: dvdE simp add: mod_eq_0_iff_dvd)
  have "2 \<le> k" "2 \<le> k'"
    using Servos_value_ge [of c] Servos_value_ge [of c'] k k' by simp_all
  moreover have "k \<noteq> k'" using ne k k' by simp
  ultimately show ?thesis
    by (auto simp add: channel_regs_def on_low_def on_high_def off_low_def off_high_def k k')
qed

lemma channel_reg_range:
  assumes "r \<in> set (concat (map channel_regs Servos_all))"
  shows "6 \<le> r \<and> r \<le> 0x45"
proof -
  from assms obtain c where "r \<in> set (channel_regs c)" by auto
  then show ?thesis
    using Servos_value_ge [of c] Servos_value_le [of c]
    by (auto simp add: channel_regs_def on_low_def on_high_def off_low_def off_high_def)
qed

lemma off_regs_not_init:
  "off_low c \<notin> {0xFE, 0xFA, 0xFB, 0xFC, 0xFD, 0x00} \<and>
   off_high c \<notin> {0xFE, 0xFA, 0xFB, 0xFC, 0xFD, 0x00}"
  using Servos_value_ge [of c] Servos_value_le [of c]
  by (auto simp add: off_low_def off_high_def)

text \<open>
  Claim C9. The sixteen servos have sixteen different register offsets, 0x08 for the
  first and 4 more for each next one, every servo is in the table, and the four
  registers of one servo are shared with no other servo.
\<close>

theorem Servos_registers_injective:
  "inj Servos_value \<and>
   set Servos_all = UNIV \<and> distinct Servos_all \<and>
   map Servos_value Servos_all = map (\<lambda>k. 0x08 + 4 * k) [0..<16] \<and>
   on_low Servo1 = REG_SERVO1_REG_BASE \<and>
   (c \<noteq> c' \<longrightarrow> set (channel_regs c) \<inter> set (channel_regs c') = {})"
proof -
  have a: "inj Servos_value"
    by (rule injI) (rule Servos_value_inj)
  have b: "distinct Servos_all"
    by (simp add: Servos_all_def)
  have c: "map Servos_value Servos_all = map (\<lambda>k. 0x08 + 4 * k) [0..<16]"
    by (simp add: Servos_all_def upt_rec numeral_eq_Suc)
  have d: "on_low Servo1 = REG_SERVO1_REG_BASE"
    by (simp add: on_low_def REG_SERVO1_REG_BASE_def)
  from a b c d Servos_all_UNIV channel_regs_disjoint show ?thesis by blast
qed

theorem Servos_registers_injective_witness:
  "Servo1 \<noteq> Servo2 \<and> set (channel_regs Servo1) \<inter> set (channel_regs Servo2) = {} \<and>
   channel_regs Servo1 = [6, 7, 8, 9] \<and> channel_regs Servo2 = [10, 11, 12, 13]"
  using Servos_registers_injective [of Servo1 Servo2]
  by (simp add: channel_regs_def on_low_def on_high_def off_low_def off_high_def)

section \<open>What reaches the bus\<close>

lemma init_events_no_channel_write:
  assumes "e \<in> set (init_events d)"
  shows "\<not> is_channel_write e"
proof
  assume cw: "is_channel_write e"
  then obtain r v where rv: "reg_write e = Some (r, v)"
    and mem: "r \<in> set (concat (map channel_regs Servos_all))"
    by (auto simp add: is_channel_write_def split: option.splits)
  from mem have range: "6 \<le> r \<and> r \<le> 0x45" by (rule channel_reg_range)
  from assms rv have "r \<in> {0xFE, 0xFA, 0xFB, 0xFC, 0xFD, 0x00}"
    by (auto simp add: init_events_def reg_defs split: if_splits)
  with range show False by auto
qed

lemma init_first_init_events: "init_first (init_events d)"
  unfolding init_first_def
  using init_events_no_channel_write nth_mem by blast

lemma writes_to_init_regs:
  assumes "r \<in> set init_regs"
  shows "length (writes_to r (init_events d)) = 1"
  using assms
  by (auto simp add: init_regs_def writes_to_def reg_writes_init_events reg_defs)

text \<open>
  Claim C3. The flag is false at startup. After any non-empty sequence of \<open>servoWrite\<close>
  calls, from any state, the flag is true; from the startup state the trace is that of
  one run of \<open>initialisation\<close>, in which the prescaler register and each of the four
  broadcast registers is written exactly once, and no write to a channel's register
  comes before them. From a state whose flag is true, a sequence of calls changes
  nothing: the flag stays true and nothing is initialised again.
\<close>

theorem init_exactly_once:
  assumes "calls \<noteq> []"
  shows "\<not> PCA9685_init startup \<and>
     (\<forall>s. PCA9685_init (run_calls dev calls s)) \<and>
     trace (run_calls dev calls startup) = trace (initialisation dev startup) \<and>
     (\<forall>r \<in> set init_regs. length (writes_to r (trace (run_calls dev calls startup))) = 1) \<and>
     init_first (trace (run_calls dev calls startup)) \<and>
     (\<forall>s. PCA9685_init s \<longrightarrow> run_calls dev calls s = s)"
proof -
  have tr: "trace (run_calls dev calls startup) = init_events (prescale_answer dev startup)"
    using assms by (simp add: run_calls_nonempty servoWrite_startup)
  have a: "\<not> PCA9685_init startup" by (simp add: startup_def)
  have b: "\<forall>s. PCA9685_init (run_calls dev calls s)"
    using assms by (simp add: run_calls_nonempty servoWrite_sets_flag)
  have c: "trace (run_calls dev calls startup) = trace (initialisation dev startup)"
    using tr by (simp add: initialisation_eq startup_def)
  have d: "\<forall>r \<in> set init_regs. length (writes_to r (trace (run_calls dev calls startup))) = 1"
    by (simp add: tr writes_to_init_regs)
  have e: "init_first (trace (run_calls dev calls startup))"
    by (simp add: tr init_first_init_events)
  have f: "\<forall>s. PCA9685_init s \<longrightarrow> run_calls dev calls s = s"
    by (simp add: run_calls_ready)
  from a b c d e f show ?thesis by blast
qed

theorem init_exactly_once_witness:
  "[(Servo1, 90), (Servo2, 0), (Servo1, 45)] \<noteq> [] \<and>
   PCA9685_init (run_calls (\<lambda>tr. 30) [(Servo1, 90), (Servo2, 0), (Servo1, 45)] startup) \<and>
   trace (run_calls (\<lambda>tr. 30) [(Servo1, 90), (Servo2, 0), (Servo1, 45)] startup) =
     trace (initialisation (\<lambda>tr. 30) startup)"
  using init_exactly_once [of "[(Servo1, 90), (Servo2, 0), (Servo1, 45)]" "\<lambda>tr. 30"]
  by simp

text \<open>
  Claim C1. The register writes of a first call of \<open>servoWrite\<close> are the six of
  \<open>initialisation\<close>; none of them goes to the off-low or the off-high register of the
  servo. A second call adds no host call to the trace, and a call in a state whose flag
  is true and whose trace is empty leaves the trace empty: \<open>servoWrite\<close> never writes
  to a channel's register.
\<close>

theorem servoWrite_writes_no_channel_register:
  "List.map_filter reg_write (trace (servoWrite dev c d startup)) =
     [(REG_PRE_SCALE, PWM_FREQUENCY), (REG_ALL_LED_ON_L, 0x00), (REG_ALL_LED_ON_H, 0x00),
      (REG_ALL_LED_OFF_L, 0x23), (REG_ALL_LED_OFF_H, 0x01), (REG_MODE1, 0x01)] \<and>
   writes_to (off_low c) (trace (servoWrite dev c d startup)) = [] \<and>
   writes_to (off_high c) (trace (servoWrite dev c d startup)) = [] \<and>
   trace (servoWrite dev c d (servoWrite dev c' d' startup))
     = trace (servoWrite dev c' d' startup) \<and>
   trace (servoWrite dev Servo1 90 \<lparr>PCA9685_init = True, trace = []\<rparr>) = []"
proof -
  have a: "List.map_filter reg_write (trace (servoWrite dev c d startup)) =
     [(REG_PRE_SCALE, PWM_FREQUENCY), (REG_ALL_LED_ON_L, 0x00), (REG_ALL_LED_ON_H, 0x00),
      (REG_ALL_LED_OFF_L, 0x23), (REG_ALL_LED_OFF_H, 0x01), (REG_MODE1, 0x01)]"
    by (simp add: servoWrite_startup reg_writes_init_events reg_defs)
  have b: "writes_to (off_low c) (trace (servoWrite dev c d startup)) = []"
    using off_regs_not_init [of c]
    by (simp add: writes_to_def servoWrite_startup reg_writes_init_events)
  have c: "writes_to (off_high c) (trace (servoWrite dev c d startup)) = []"
    using off_regs_not_init [of c]
    by (simp add: writes_to_def servoWrite_startup reg_writes_init_events)
  have d: "trace (servoWrite dev c d (servoWrite dev c' d' startup))
      = trace (servoWrite dev c' d' startup)"
    by (simp add: servoWrite_ready servoWrite_sets_flag)
  have e: "trace (servoWrite dev Servo1 90 \<lparr>PCA9685_init = True, trace = []\<rparr>) = []"
    by (simp add: servoWrite_def)
  from a b c d e show ?thesis by blast
qed

section \<open>Properties of the specified angle encoder\<close>

lemma profile_of_valid: "valid_profile (profile_of r)"
  by (cases r) (simp_all add: valid_profile_def)

lemma encode_0: "encode 0 p = \<lfloor>minPulseUs p * 4096 / 20000\<rfloor>"
proof -
  have eq: "(minPulseUs p + (clamp_angle 0 / 180) * (maxPulseUs p - minPulseUs p)) * countsPerUs
      = minPulseUs p * 4096 / 20000"
    by (simp add: clamp_angle_def countsPerUs_def)
  show ?thesis by (simp only: encode_def Let_def eq)
qed

lemma encode_180: "encode 180 p = \<lfloor>maxPulseUs p * 4096 / 20000\<rfloor>"
proof -
  have eq: "(minPulseUs p + (clamp_angle 180 / 180) * (maxPulseUs p - minPulseUs p)) * countsPerUs
      = maxPulseUs p * 4096 / 20000"
    by (simp add: clamp_angle_def countsPerUs_def)
  show ?thesis by (simp only: encode_def Let_def eq)
qed

lemma clamp_angle_mono: "a1 \<le> a2 \<Longrightarrow> clamp_angle a1 \<le> clamp_angle a2"
  by (simp add: clamp_angle_def)

lemma clamp_angle_range: "0 \<le> clamp_angle a \<and> clamp_angle a \<le> 180"
  by (simp add: clamp_angle_def)

lemma encode_clamp: "encode (- 10) p = encode 0 p \<and> encode 200 p = encode 180 p"
  by (simp add: encode_def clamp_angle_def)

lemma encode_pulse: "encode a p = \<lfloor>pulse a p * countsPerUs\<rfloor>"
  by (simp add: encode_def pulse_def Let_def)

lemma pulse_mono:
  assumes "minPulseUs p \<le> maxPulseUs p" "a1 \<le> a2"
  shows "pulse a1 p \<le> pulse a2 p"
proof -
  have "clamp_angle a1 / 180 \<le> clamp_angle a2 / 180"
    using clamp_angle_mono [OF assms(2)] by simp
  then have "(clamp_angle a1 / 180) * (maxPulseUs p - minPulseUs p)
      \<le> (clamp_angle a2 / 180) * (maxPulseUs p - minPulseUs p)"
    using assms(1) by (intro mult_right_mono) simp_all
  then show ?thesis by (simp add: pulse_def)
qed

lemma pulse_range:
  assumes "minPulseUs p \<le> maxPulseUs p"
  shows "minPulseUs p \<le> pulse a p \<and> pulse a p \<le> maxPulseUs p"
proof -
  let ?t = "clamp_angle a / 180"
  let ?w = "maxPulseUs p - minPulseUs p"
  have t: "0 \<le> ?t" "?t \<le> 1" using clamp_angle_range [of a] by simp_all
  have w: "0 \<le> ?w" using assms by simp
  have lo: "0 \<le> ?t * ?w" using t(1) w by simp
  have hi: "?t * ?w \<le> 1 * ?w" using t(2) w by (intro mult_right_mono) simp_all
  from lo hi show ?thesis by (simp add: pulse_def)
qed

lemma encode_mono:
  assumes "minPulseUs p \<le> maxPulseUs p" "a1 \<le> a2"
  shows "encode a1 p \<le> encode a2 p"
proof -
  have "pulse a1 p * countsPerUs \<le> pulse a2 p * countsPerUs"
    using pulse_mono [OF assms] by (simp add: countsPerUs_def)
  then show ?thesis unfolding encode_pulse by (rule floor_mono)
qed

lemma encode_bounds:
  assumes "valid_profile p"
  shows "102 \<le> encode a p \<and> encode a p \<le> 512"
proof -
  from assms have le: "minPulseUs p \<le> maxPulseUs p"
    and lo: "500 \<le> minPulseUs p" and hi: "maxPulseUs p \<le> 2500"
    by (simp_all add: valid_profile_def)
  from pulse_range [OF le, of a] lo hi
  have p: "500 \<le> pulse a p" "pulse a p \<le> 2500" by simp_all
  have "(102::real) \<le> pulse a p * countsPerUs"
    using p(1) by (simp add: countsPerUs_def)
  then have a: "102 \<le> \<lfloor>pulse a p * countsPerUs\<rfloor>"
    by (simp add: le_floor_iff)
  have "pulse a p * countsPerUs \<le> 512"
    using p(2) by (simp add: countsPerUs_def)
  then have "\<lfloor>pulse a p * countsPerUs\<rfloor> \<le> \<lfloor>512::real\<rfloor>"
    by (rule floor_mono)
  then have b: "\<lfloor>pulse a p * countsPerUs\<rfloor> \<le> 512" by simp
  from a b show ?thesis by (simp add: encode_pulse)
qed

lemma encode_bounds_differ: "encode 0 (profile_of r) < encode 180 (profile_of r)"
  by (cases r) (simp_all add: encode_0 encode_180)

text \<open>
  Claim C6. For each of the six profiles, \<open>encode\<close> at the angle 0 is the minimum pulse
  width times 4096 / 20000, rounded down, and at the angle 180 the maximum pulse width
  times 4096 / 20000, rounded down; for the profile of 1000 to 2000 microseconds these
  are 204 and 409. The six pairs are listed.
\<close>

theorem encode_endpoints:
  "encode 0 (profile_of r) = \<lfloor>minPulseUs (profile_of r) * 4096 / 20000\<rfloor> \<and>
   encode 180 (profile_of r) = \<lfloor>maxPulseUs (profile_of r) * 4096 / 20000\<rfloor> \<and>
   encode 0 (profile_of R1000_2000uS) = 204 \<and>
   encode 180 (profile_of R1000_2000uS) = 409 \<and>
   map (\<lambda>r. (encode 0 (profile_of r), encode 180 (profile_of r)))
     [R500_2500uS, R600_2400uS, R700_2300uS, R800_2200uS, R900_2100uS, R1000_2000uS] =
   [(102, 512), (122, 491), (143, 471), (163, 450), (184, 430), (204, 409)]"
proof -
  have a: "encode 0 (profile_of R1000_2000uS) = 204"
    by (simp add: encode_0)
  have b: "encode 180 (profile_of R1000_2000uS) = 409"
    by (simp add: encode_180)
  have c: "map (\<lambda>r. (encode 0 (profile_of r), encode 180 (profile_of r)))
     [R500_2500uS, R600_2400uS, R700_2300uS, R800_2200uS, R900_2100uS, R1000_2000uS] =
   [(102, 512), (122, 491), (143, 471), (163, 450), (184, 430), (204, 409)]"
    by (simp add: encode_0 encode_180)
  from a b c encode_0 [of "profile_of r"] encode_180 [of "profile_of r"]
  show ?thesis by blast
qed

text \<open>
  Claim C7. For a profile with 500 \<le> minPulseUs < maxPulseUs \<le> 2500, \<open>encode\<close> does not
  decrease when the angle grows from 0 to 180, \<open>encode\<close> at 0 is at most \<open>encode\<close> at 180,
  and for every angle from 0 to 180 the result is at least 0 and less than 4096.
\<close>

theorem encode_monotone_and_12_bit:
  assumes "valid_profile p"
  shows "(0 \<le> a1 \<and> a1 \<le> a2 \<and> a2 \<le> 180 \<longrightarrow> encode a1 p \<le> encode a2 p) \<and>
     encode 0 p \<le> encode 180 p \<and>
     (0 \<le> a \<and> a \<le> 180 \<longrightarrow> 0 \<le> encode a p \<and> encode a p < 4096)"
proof -
  from assms have le: "minPulseUs p \<le> maxPulseUs p"
    by (simp add: valid_profile_def)
  have m: "encode 0 p \<le> encode 180 p"
    by (rule encode_mono [OF le]) simp
  from encode_bounds [OF assms, of a] have b: "0 \<le> encode a p \<and> encode a p < 4096"
    by simp
  from m b encode_mono [OF le, of a1 a2] show ?thesis by blast
qed

theorem encode_monotone_and_12_bit_witness:
  "valid_profile (profile_of R600_2400uS) \<and>
   encode 45 (profile_of R600_2400uS) = 215 \<and>
   encode 90 (profile_of R600_2400uS) = 307 \<and>
   encode 45 (profile_of R600_2400uS) \<le> encode 90 (profile_of R600_2400uS) \<and>
   0 \<le> encode 135 (profile_of R600_2400uS) \<and> encode 135 (profile_of R600_2400uS) < 4096"
proof -
  have h: "valid_profile (profile_of R600_2400uS)"
    by (simp add: valid_profile_def)
  have v: "encode 45 (profile_of R600_2400uS) = 215" "encode 90 (profile_of R600_2400uS) = 307"
    by (simp_all add: encode_def clamp_angle_def countsPerUs_def)
  from h v encode_monotone_and_12_bit [OF h, of 45 90 135] show ?thesis by simp
qed

end
